theory Spec2Isabelle
  imports Main
begin

section \<open>The ipfs-instance wrapper (src/index.js)\<close>

text \<open>
  The module wraps one node of the \<open>ipfs\<close> package. Everything outside the module
  (the wrapped node, the \<open>debug\<close> logger, the functions a caller passes in) is a parameter
  of the model: a function that answers each call with a completion and a new state of
  the outside world. Every call the module makes to the outside is written to a trace,
  oldest call first, so that what is delegated, and with which arguments, can be stated.
\<close>

subsection \<open>Values\<close>

text \<open>Plain data: the DAG nodes and option objects a caller hands over.\<close>

datatype dat =
    JNull
  | JBool bool
  | JNum int
  | JStr string
  | JObj "(string \<times> dat) list"

text \<open>A promise is modelled by how it settles; \<open>Pending\<close> is a promise that never does.\<close>

datatype 'a settled = Pending | Fulfilled 'a | Rejected 'a

text \<open>
  JavaScript values. \<open>Fun n\<close> is a function supplied by the caller, known by identity;
  \<open>Error m\<close> is \<open>new Error(m)\<close>; \<open>Instance\<close> is the object literal \<open>instance\<close> of the
  module. \<open>ConfigObject\<close> is the one object created by the literal on line 13, known by
  reference: whoever is handed it can read and write its members, so what it holds is
  part of the state, not of the value. Objects with callable members are outside the
  model.
\<close>

datatype jsval =
    Undefined
  | Data dat
  | Error string
  | TypeError string
  | Fun nat
  | Promise "jsval settled"
  | Instance
  | ConfigObject

text \<open>How the evaluation of a call ends: with a value, or with a thrown value.\<close>

datatype completion = Return jsval | Throw jsval

text \<open>
  The arrow functions the module creates, each with the \<open>callback\<close> it closes over:
  the third argument of \<open>dag.put\<close> in \<open>putObjectSync\<close>, the four listeners of
  \<open>onError\<close>, \<open>onInit\<close>, \<open>onStart\<close>, \<open>onStop\<close>, and the listener of \<open>'ready'\<close>.
\<close>

datatype closure =
    PutCallback jsval
  | ErrorListener jsval
  | InitListener jsval
  | StartListener jsval
  | StopListener jsval
  | ReadyListener

text \<open>The calls the module makes to the outside.\<close>

datatype ext_call =
    NodeStart
  | NodeStop
  | NodeIsOnline
  | DagPut2 jsval jsval
  | DagPut3 jsval jsval closure
  | NodeOn string closure
  | Debug string "jsval list"
  | CallFn nat "jsval list"

text \<open>
  The state of the outside world: \<open>default_object\<close> is what the object \<open>ConfigObject\<close>
  holds at the moment, \<open>rest\<close> is everything else (the node, the logger, the caller).
  The object is not frozen, so the outside can change \<open>default_object\<close> while it answers
  a call. The outside answers a call without calling one of the module's arrow functions
  before its answer: those are called later, each as a step of its own (\<open>invoke\<close> below).
\<close>

record 'e outside =
  default_object :: dat
  rest :: 'e

type_synonym 'e ext = "ext_call \<Rightarrow> 'e outside \<Rightarrow> completion \<times> 'e outside"

subsection \<open>State\<close>

datatype handle = IpfsNode

text \<open>
  \<open>ipfsInstance\<close> is the variable of that name (\<open>None\<close> is \<open>undefined\<close>), \<open>exported\<close> the
  promise the module exports, \<open>env\<close> the state of the outside world, \<open>trace\<close> the calls
  made to it so far.
\<close>

record 'e world =
  ipfsInstance :: "handle option"
  exported :: "jsval settled"
  env :: "'e outside"
  trace :: "ext_call list"

definition perform :: "'e ext \<Rightarrow> ext_call \<Rightarrow> 'e world \<Rightarrow> completion \<times> 'e world" where
  "perform ext c w =
     (case ext c (env w) of
        (r, e') \<Rightarrow> (r, w\<lparr>env := e', trace := trace w @ [c]\<rparr>))"

text \<open>Statement sequencing: a throw ends the function body.\<close>

definition and_then ::
  "('w \<Rightarrow> completion \<times> 'w) \<Rightarrow> (jsval \<Rightarrow> 'w \<Rightarrow> completion \<times> 'w) \<Rightarrow> 'w \<Rightarrow> completion \<times> 'w" where
  "and_then m k w =
     (case m w of
        (Throw e, w') \<Rightarrow> (Throw e, w')
      | (Return v, w') \<Rightarrow> k v w')"

definition done_undefined :: "jsval \<Rightarrow> 'w \<Rightarrow> completion \<times> 'w" where
  "done_undefined v w = (Return Undefined, w)"

text \<open>\<open>arguments[i]\<close>, and a parameter bound from the argument list: \<open>undefined\<close> when absent.\<close>

definition arg :: "jsval list \<Rightarrow> nat \<Rightarrow> jsval" where
  "arg args i = (if i < length args then args ! i else Undefined)"

subsection \<open>The module\<close>

definition NOT_CONNECTED :: jsval where
  "NOT_CONNECTED = Error ''IPFS is not connected yet. Call client.getInstance() first!''"

definition NO_OBJECT :: jsval where
  "NO_OBJECT = Error ''You have to provide object''"

definition validateIPFSConnected :: "handle option \<Rightarrow> completion" where
  "validateIPFSConnected ipfs =
     (case ipfs of
        None \<Rightarrow> Throw NOT_CONNECTED
      | Some h \<Rightarrow> Return Undefined)"

definition validated :: "'e world \<Rightarrow> completion \<times> 'e world" where
  "validated w = (validateIPFSConnected (ipfsInstance w), w)"

text \<open>
  \<open>const DEFAULT_DAG_CONFIG = { format: 'dag-cbor', hashAlg: 'sha3-512' }\<close>: the constant
  is bound to the object, and \<open>DAG_CONFIG_LITERAL\<close> is what the literal puts into it.
\<close>

definition DAG_CONFIG_LITERAL :: dat where
  "DAG_CONFIG_LITERAL = JObj [(''format'', JStr ''dag-cbor''), (''hashAlg'', JStr ''sha3-512'')]"

definition DEFAULT_DAG_CONFIG :: jsval where
  "DEFAULT_DAG_CONFIG = ConfigObject"

definition start :: "'e ext \<Rightarrow> jsval list \<Rightarrow> 'e world \<Rightarrow> completion \<times> 'e world" where
  "start ext args =
     and_then validated (\<lambda>_.
     and_then (perform ext NodeStart) done_undefined)"

definition stop :: "'e ext \<Rightarrow> jsval list \<Rightarrow> 'e world \<Rightarrow> completion \<times> 'e world" where
  "stop ext args =
     and_then validated (\<lambda>_.
     and_then (perform ext NodeStop) done_undefined)"

definition isOnline :: "'e ext \<Rightarrow> jsval list \<Rightarrow> 'e world \<Rightarrow> completion \<times> 'e world" where
  "isOnline ext args =
     and_then validated (\<lambda>_. perform ext NodeIsOnline)"

text \<open>
  What a promise made from a completion settles to: a throw rejects, a returned promise
  is followed, any other value fulfils. This is both \<open>await\<close> on the operand and the
  resolution of the promise of an \<open>async\<close> function with what its body completes with.
\<close>

fun settle :: "completion \<Rightarrow> jsval settled" where
  "settle (Throw e) = Rejected e"
| "settle (Return (Promise s)) = s"
| "settle (Return v) = Fulfilled v"

text \<open>An \<open>async\<close> function never throws to its caller: it returns a promise.\<close>

definition async :: "('w \<Rightarrow> completion \<times> 'w) \<Rightarrow> 'w \<Rightarrow> completion \<times> 'w" where
  "async body w = (case body w of (r, w') \<Rightarrow> (Return (Promise (settle r)), w'))"

text \<open>
  \<open>async putObject(dagNode, options = DEFAULT_DAG_CONFIG)\<close>: the default applies when the
  second argument is absent or \<open>undefined\<close>. The body is \<open>return await dag.put(...)\<close>;
  awaiting a promise and returning what it gave settles the function's promise the same
  way, which is what \<open>settle\<close> in \<open>async\<close> computes.
\<close>

definition putObject :: "'e ext \<Rightarrow> jsval list \<Rightarrow> 'e world \<Rightarrow> completion \<times> 'e world" where
  "putObject ext args =
     (let dagNode = arg args 0;
          options = (if arg args 1 = Undefined then DEFAULT_DAG_CONFIG else arg args 1)
      in async (and_then validated (\<lambda>_. perform ext (DagPut2 dagNode options))))"

text \<open>The locals \<open>obj\<close>, \<open>config\<close>, \<open>callback\<close> of \<open>putObjectSync\<close>, assigned by argument count.\<close>

record locals =
  obj :: jsval
  config :: jsval
  callback :: jsval

definition putObjectSync_locals :: "jsval list \<Rightarrow> locals" where
  "putObjectSync_locals args =
     (let l0 = \<lparr>obj = Undefined, config = DEFAULT_DAG_CONFIG, callback = Undefined\<rparr>;
          l1 = (if length args = 3
                then l0\<lparr>obj := args ! 0, config := args ! 1, callback := args ! 2\<rparr>
                else l0);
          l2 = (if length args = 2
                then l1\<lparr>obj := args ! 0, callback := args ! 1\<rparr>
                else l1)
      in l2)"

definition putObjectSync :: "'e ext \<Rightarrow> jsval list \<Rightarrow> 'e world \<Rightarrow> completion \<times> 'e world" where
  "putObjectSync ext args w =
     (if length args = 0 then (Throw NO_OBJECT, w)
      else
        (let l = putObjectSync_locals args
         in and_then validated (\<lambda>_.
            and_then (perform ext (DagPut3 (obj l) (config l) (PutCallback (callback l))))
              done_undefined) w))"

definition onError :: "'e ext \<Rightarrow> jsval list \<Rightarrow> 'e world \<Rightarrow> completion \<times> 'e world" where
  "onError ext args =
     and_then validated (\<lambda>_.
     and_then (perform ext (NodeOn ''error'' (ErrorListener (arg args 0)))) done_undefined)"

definition onInit :: "'e ext \<Rightarrow> jsval list \<Rightarrow> 'e world \<Rightarrow> completion \<times> 'e world" where
  "onInit ext args =
     and_then validated (\<lambda>_.
     and_then (perform ext (NodeOn ''init'' (InitListener (arg args 0)))) done_undefined)"

definition onStart :: "'e ext \<Rightarrow> jsval list \<Rightarrow> 'e world \<Rightarrow> completion \<times> 'e world" where
  "onStart ext args =
     and_then validated (\<lambda>_.
     and_then (perform ext (NodeOn ''start'' (StartListener (arg args 0)))) done_undefined)"

definition onStop :: "'e ext \<Rightarrow> jsval list \<Rightarrow> 'e world \<Rightarrow> completion \<times> 'e world" where
  "onStop ext args =
     and_then validated (\<lambda>_.
     and_then (perform ext (NodeOn ''stop'' (StopListener (arg args 0)))) done_undefined)"

text \<open>The methods of \<open>instance\<close>, and a call of one of them with an argument list.\<close>

datatype operation =
    Start | Stop | IsOnline | PutObject | PutObjectSync | OnError | OnInit | OnStart | OnStop

fun call :: "'e ext \<Rightarrow> operation \<Rightarrow> jsval list \<Rightarrow> 'e world \<Rightarrow> completion \<times> 'e world" where
  "call ext Start = start ext"
| "call ext Stop = stop ext"
| "call ext IsOnline = isOnline ext"
| "call ext PutObject = putObject ext"
| "call ext PutObjectSync = putObjectSync ext"
| "call ext OnError = onError ext"
| "call ext OnInit = onInit ext"
| "call ext OnStart = onStart ext"
| "call ext OnStop = onStop ext"

subsection \<open>The arrow functions\<close>

text \<open>Calling a value: a value that is not a function raises a \<open>TypeError\<close>.\<close>

definition call_value :: "'e ext \<Rightarrow> jsval \<Rightarrow> jsval list \<Rightarrow> 'e world \<Rightarrow> completion \<times> 'e world" where
  "call_value ext f args w =
     (case f of
        Fun n \<Rightarrow> perform ext (CallFn n args) w
      | _ \<Rightarrow> (Throw (TypeError ''callback is not a function''), w))"

text \<open>\<open>resolve(instance)\<close>: only a pending promise changes.\<close>

definition resolve :: "jsval \<Rightarrow> 'e world \<Rightarrow> 'e world" where
  "resolve v w = (case exported w of Pending \<Rightarrow> w\<lparr>exported := Fulfilled v\<rparr> | _ \<Rightarrow> w)"

text \<open>
  What each arrow function does when it is called with the arguments \<open>as\<close>. Parameters are
  bound by position; the block bodies return \<open>undefined\<close>.
\<close>

fun invoke :: "'e ext \<Rightarrow> closure \<Rightarrow> jsval list \<Rightarrow> 'e world \<Rightarrow> completion \<times> 'e world" where
  "invoke ext (PutCallback cb) as =
     and_then (call_value ext cb [arg as 0, arg as 1]) done_undefined"
| "invoke ext (ErrorListener cb) as =
     and_then (perform ext
       (Debug ''IPFS Node has hit some error while initing/starting'' [arg as 0])) (\<lambda>_.
     and_then (call_value ext cb [arg as 0]) done_undefined)"
| "invoke ext (InitListener cb) as =
     and_then (perform ext
       (Debug ''IPFS Node has successfully finished initing the repo'' [])) (\<lambda>_.
     and_then (call_value ext cb []) done_undefined)"
| "invoke ext (StartListener cb) as =
     and_then (perform ext (Debug ''IPFS Node has started'' [])) (\<lambda>_.
     and_then (call_value ext cb []) done_undefined)"
| "invoke ext (StopListener cb) as =
     and_then (perform ext (Debug ''IPFS Node has stopped'' [])) (\<lambda>_.
     and_then (call_value ext cb []) done_undefined)"
| "invoke ext ReadyListener as =
     (\<lambda>w. (Return Undefined, resolve Instance (w\<lparr>ipfsInstance := Some IpfsNode\<rparr>)))"

subsection \<open>Loading the module\<close>

text \<open>
  The module body from line 13 on. \<open>created\<close> is the state once the constant is bound to
  its fresh object and \<open>ipfsInstance\<close> is declared: the variable is \<open>undefined\<close>, the
  promise about to be made is pending, nothing has been called. Then the executor of the
  promise subscribes to \<open>'ready'\<close>; a throw inside an executor rejects the promise.
\<close>

definition created :: "'e \<Rightarrow> 'e world" where
  "created e =
     \<lparr>ipfsInstance = None, exported = Pending,
      env = \<lparr>default_object = DAG_CONFIG_LITERAL, rest = e\<rparr>, trace = []\<rparr>"

definition load :: "'e ext \<Rightarrow> 'e \<Rightarrow> 'e world" where
  "load ext e =
     (case perform ext (NodeOn ''ready'' ReadyListener) (created e) of
        (Throw x, w1) \<Rightarrow> w1\<lparr>exported := Rejected x\<rparr>
      | (Return v, w1) \<Rightarrow> w1)"

subsection \<open>Reachable states\<close>

text \<open>
  The states the module can be in: after loading, after any of its arrow functions has
  been called by the outside (the \<open>'ready'\<close> listener among them), after a call of any
  method, and after the outside changed on its own.
\<close>

inductive reachable :: "'e ext \<Rightarrow> 'e world \<Rightarrow> bool" for ext :: "'e ext" where
  loaded: "reachable ext (load ext e)"
| invoked: "reachable ext w \<Longrightarrow> reachable ext (snd (invoke ext c as w))"
| called: "reachable ext w \<Longrightarrow> reachable ext (snd (call ext op args w))"
| outside: "reachable ext w \<Longrightarrow> reachable ext (w\<lparr>env := e\<rparr>)"

subsection \<open>Vocabulary of the properties\<close>

text \<open>
  A call fails with \<open>x\<close> when it throws \<open>x\<close> or, for an \<open>async\<close> method, returns a promise
  rejected with \<open>x\<close>.
\<close>

fun fails_with :: "completion \<Rightarrow> jsval \<Rightarrow> bool" where
  "fails_with (Throw e) x = (e = x)"
| "fails_with (Return (Promise (Rejected e))) x = (e = x)"
| "fails_with (Return v) x = False"

text \<open>
  The one call each method makes on the wrapped node once the readiness check has passed;
  \<open>putObjectSync\<close> without arguments makes none.
\<close>

fun delegated_call :: "operation \<Rightarrow> jsval list \<Rightarrow> ext_call option" where
  "delegated_call Start args = Some NodeStart"
| "delegated_call Stop args = Some NodeStop"
| "delegated_call IsOnline args = Some NodeIsOnline"
| "delegated_call PutObject args =
     Some (DagPut2 (arg args 0)
       (if arg args 1 = Undefined then DEFAULT_DAG_CONFIG else arg args 1))"
| "delegated_call PutObjectSync args =
     (if args = [] then None
      else if length args = 3 then Some (DagPut3 (args ! 0) (args ! 1) (PutCallback (args ! 2)))
      else if length args = 2 then Some (DagPut3 (args ! 0) DEFAULT_DAG_CONFIG (PutCallback (args ! 1)))
      else Some (DagPut3 Undefined DEFAULT_DAG_CONFIG (PutCallback Undefined)))"
| "delegated_call OnError args = Some (NodeOn ''error'' (ErrorListener (arg args 0)))"
| "delegated_call OnInit args = Some (NodeOn ''init'' (InitListener (arg args 0)))"
| "delegated_call OnStart args = Some (NodeOn ''start'' (StartListener (arg args 0)))"
| "delegated_call OnStop args = Some (NodeOn ''stop'' (StopListener (arg args 0)))"

subsection \<open>A concrete outside world\<close>

text \<open>
  An outside world for the concrete instances below. The rest of its state counts the
  calls it has answered, and it never writes to the object of the module. The node reports itself online, \<open>start\<close> returns a promise rejected with an
  error, the two-argument \<open>dag.put\<close> returns a promise fulfilled with the options it was
  given, and every other call returns \<open>undefined\<close>.
\<close>

definition counted :: "nat outside \<Rightarrow> nat outside" where
  "counted s = s\<lparr>rest := Suc (rest s)\<rparr>"

fun sample_ext :: "ext_call \<Rightarrow> nat outside \<Rightarrow> completion \<times> nat outside" where
  "sample_ext NodeIsOnline s = (Return (Data (JBool True)), counted s)"
| "sample_ext NodeStart s =
     (Return (Promise (Rejected (Error ''repo is locked''))), counted s)"
| "sample_ext (DagPut2 d opts) s = (Return (Promise (Fulfilled opts)), counted s)"
| "sample_ext c s = (Return Undefined, counted s)"

text \<open>The module just loaded, and the module after the first \<open>'ready'\<close> event.\<close>

definition fresh_world :: "nat world" where
  "fresh_world = load sample_ext 0"

definition ready_world :: "nat world" where
  "ready_world = snd (invoke sample_ext ReadyListener [] fresh_world)"

text \<open>
  A second outside world, one whose node fails: \<open>stop\<close> and the three-argument \<open>dag.put\<close>
  throw, the two-argument \<open>dag.put\<close> throws when the node to store is \<open>undefined\<close> and
  otherwise returns a rejected promise, the node reports itself offline.
\<close>

fun failing_ext :: "ext_call \<Rightarrow> nat outside \<Rightarrow> completion \<times> nat outside" where
  "failing_ext NodeIsOnline s = (Return (Data (JBool False)), counted s)"
| "failing_ext NodeStop s = (Throw (Error ''not started''), counted s)"
| "failing_ext (DagPut2 d opts) s =
     (if d = Undefined then Throw (TypeError ''node is undefined'')
      else Return (Promise (Rejected (Error ''block store failed''))), counted s)"
| "failing_ext (DagPut3 d opts cb) s = (Throw (Error ''invalid node''), counted s)"
| "failing_ext c s = (Return Undefined, counted s)"

definition failing_world :: "nat world" where
  "failing_world = snd (invoke failing_ext ReadyListener [] (load failing_ext 0))"



section \<open>Basic facts\<close>

text \<open>The readiness check, one delegated call, and the shape of every method call.\<close>

lemma and_then_unset:
  "ipfsInstance w = None \<Longrightarrow> and_then validated k w = (Throw NOT_CONNECTED, w)"
  by (simp add: and_then_def validated_def validateIPFSConnected_def)

lemma and_then_set:
  "ipfsInstance w = Some h \<Longrightarrow> and_then validated k w = k Undefined w"
  by (simp add: and_then_def validated_def validateIPFSConnected_def)

lemma fst_perform: "fst (perform ext c w) = fst (ext c (env w))"
  by (simp add: perform_def split: prod.splits)

lemma snd_perform:
  "snd (perform ext c w) = w\<lparr>env := snd (ext c (env w)), trace := trace w @ [c]\<rparr>"
  by (simp add: perform_def split: prod.splits)

lemma snd_perform_done:
  "snd (and_then (perform ext c) done_undefined w) = snd (perform ext c w)"
  by (simp add: and_then_def done_undefined_def split: prod.splits completion.splits)

lemma fst_perform_done:
  "fst (and_then (perform ext c) done_undefined w) =
     (case fst (ext c (env w)) of Throw e \<Rightarrow> Throw e | Return v \<Rightarrow> Return Undefined)"
  by (simp add: and_then_def done_undefined_def perform_def split: prod.splits completion.splits)

lemma fst_async: "fst (async body w) = Return (Promise (settle (fst (body w))))"
  by (simp add: async_def split: prod.splits)

lemma snd_async: "snd (async body w) = snd (body w)"
  by (simp add: async_def split: prod.splits)

lemma call_unset:
  assumes "ipfsInstance w = None"
  shows "call ext op args w =
     (if op = PutObjectSync \<and> args = [] then Throw NO_OBJECT
      else if op = PutObject then Return (Promise (Rejected NOT_CONNECTED))
      else Throw NOT_CONNECTED, w)"
  using assms
  by (cases op)
     (simp_all add: start_def stop_def isOnline_def putObject_def putObjectSync_def
        onError_def onInit_def onStart_def onStop_def async_def Let_def and_then_unset)

lemma locals_3: "putObjectSync_locals [a, b, c] = \<lparr>obj = a, config = b, callback = c\<rparr>"
  by (simp add: putObjectSync_locals_def)

lemma locals_2:
  "putObjectSync_locals [a, c] = \<lparr>obj = a, config = DEFAULT_DAG_CONFIG, callback = c\<rparr>"
  by (simp add: putObjectSync_locals_def)

lemma locals_other:
  "length args \<noteq> 3 \<Longrightarrow> length args \<noteq> 2 \<Longrightarrow>
   putObjectSync_locals args =
     \<lparr>obj = Undefined, config = DEFAULT_DAG_CONFIG, callback = Undefined\<rparr>"
  by (simp add: putObjectSync_locals_def)

lemma locals_delegated:
  "args \<noteq> [] \<Longrightarrow>
   delegated_call PutObjectSync args =
     Some (DagPut3 (obj (putObjectSync_locals args)) (config (putObjectSync_locals args))
        (PutCallback (callback (putObjectSync_locals args))))"
  by (simp add: putObjectSync_locals_def)

lemma call_set_snd:
  assumes "ipfsInstance w = Some h" and "delegated_call op args = Some c"
  shows "snd (call ext op args w) = snd (perform ext c w)"
proof (cases op)
  case PutObject
  with assms show ?thesis
    by (auto simp: putObject_def snd_async Let_def and_then_set)
next
  case PutObjectSync
  with assms have ne: "args \<noteq> []" by (auto split: if_splits)
  from assms PutObjectSync locals_delegated [OF ne]
  show ?thesis
    using ne by (simp add: putObjectSync_def Let_def and_then_set snd_perform_done
        del: delegated_call.simps)
qed (use assms in \<open>auto simp: start_def stop_def isOnline_def onError_def onInit_def onStart_def
      onStop_def and_then_set snd_perform_done\<close>)

lemma call_set_fst:
  assumes "ipfsInstance w = Some h" and "delegated_call op args = Some c"
  shows "fst (call ext op args w) =
     (if op = PutObject then Return (Promise (settle (fst (ext c (env w)))))
      else if op = IsOnline then fst (ext c (env w))
      else (case fst (ext c (env w)) of Throw e \<Rightarrow> Throw e | Return v \<Rightarrow> Return Undefined))"
proof (cases op)
  case PutObject
  with assms show ?thesis
    by (auto simp: putObject_def fst_async Let_def and_then_set fst_perform)
next
  case PutObjectSync
  with assms have ne: "args \<noteq> []" by (auto split: if_splits)
  from assms PutObjectSync locals_delegated [OF ne]
  show ?thesis
    using ne by (simp add: putObjectSync_def Let_def and_then_set fst_perform_done
        del: delegated_call.simps)
qed (use assms in \<open>auto simp: start_def stop_def isOnline_def onError_def onInit_def onStart_def
      onStop_def and_then_set fst_perform_done fst_perform\<close>)

lemma fresh_world_simps:
  "ipfsInstance fresh_world = None" "exported fresh_world = Pending"
  "env fresh_world = \<lparr>default_object = DAG_CONFIG_LITERAL, rest = 1\<rparr>"
  "trace fresh_world = [NodeOn ''ready'' ReadyListener]"
  by (simp_all add: fresh_world_def load_def created_def perform_def counted_def)

lemma ready_world_simps:
  "ipfsInstance ready_world = Some IpfsNode" "exported ready_world = Fulfilled Instance"
  "env ready_world = \<lparr>default_object = DAG_CONFIG_LITERAL, rest = 1\<rparr>"
  "trace ready_world = [NodeOn ''ready'' ReadyListener]"
  by (simp_all add: ready_world_def resolve_def fresh_world_simps)

lemma failing_world_simps:
  "ipfsInstance failing_world = Some IpfsNode" "exported failing_world = Fulfilled Instance"
  "env failing_world = \<lparr>default_object = DAG_CONFIG_LITERAL, rest = 1\<rparr>"
  "trace failing_world = [NodeOn ''ready'' ReadyListener]"
  by (simp_all add: failing_world_def resolve_def load_def created_def perform_def counted_def)


lemma DEFAULT_not_Undefined: "DEFAULT_DAG_CONFIG \<noteq> Undefined"
  by (simp add: DEFAULT_DAG_CONFIG_def)

text \<open>The arrow functions around a callback that is a function.\<close>

lemma call_value_Fun: "call_value ext (Fun n) args = perform ext (CallFn n args)"
  by (rule HOL.ext) (simp add: call_value_def)

lemma invoke_PutCallback_trace:
  "trace (snd (invoke ext (PutCallback (Fun f)) [err, cid] w)) = trace w @ [CallFn f [err, cid]]"
  by (simp add: call_value_Fun snd_perform_done snd_perform arg_def)


section \<open>What never changes the handle or the exported promise\<close>

text \<open>
  Only the \<open>'ready'\<close> listener writes \<open>ipfsInstance\<close> and settles the exported promise;
  the methods and the other arrow functions leave both alone.
\<close>

lemma and_then_frame:
  assumes "\<And>w. P (snd (m w)) = P w" and "\<And>v w. P (snd (k v w)) = P w"
  shows "P (snd (and_then m k w)) = P w"
proof (cases "m w")
  case (Pair r w')
  with assms(1) [of w] have "P w' = P w" by simp
  with Pair assms(2) show ?thesis
    by (cases r) (simp_all add: and_then_def)
qed

lemma perform_frame:
  "ipfsInstance (snd (perform ext c w)) = ipfsInstance w"
  "exported (snd (perform ext c w)) = exported w"
  by (simp_all add: snd_perform)

lemma call_value_frame:
  "ipfsInstance (snd (call_value ext f args w)) = ipfsInstance w"
  "exported (snd (call_value ext f args w)) = exported w"
  by (cases f; simp add: call_value_def perform_frame)+

lemma call_frame:
  "ipfsInstance (snd (call ext op args w)) = ipfsInstance w \<and>
   exported (snd (call ext op args w)) = exported w"
proof (cases "ipfsInstance w")
  case None
  then show ?thesis by (simp add: call_unset)
next
  case (Some h)
  show ?thesis
  proof (cases "delegated_call op args")
    case None
    then have "op = PutObjectSync" and "args = []"
      by (cases op; simp split: if_splits)+
    then show ?thesis by (simp add: putObjectSync_def)
  next
    case (Some c)
    with \<open>ipfsInstance w = Some h\<close> show ?thesis
      by (simp add: call_set_snd perform_frame)
  qed
qed

lemma listener_frame:
  "ipfsInstance (snd (and_then (perform ext d)
      (\<lambda>_. and_then (call_value ext cb ys) done_undefined) w)) = ipfsInstance w"
  "exported (snd (and_then (perform ext d)
      (\<lambda>_. and_then (call_value ext cb ys) done_undefined) w)) = exported w"
  by (intro and_then_frame; simp add: perform_frame call_value_frame done_undefined_def)+

lemma invoke_frame:
  assumes "c \<noteq> ReadyListener"
  shows "ipfsInstance (snd (invoke ext c as w)) = ipfsInstance w \<and>
         exported (snd (invoke ext c as w)) = exported w"
proof (cases c)
  case (PutCallback cb)
  have "ipfsInstance (snd (and_then (call_value ext cb ys) done_undefined w)) = ipfsInstance w"
    and "exported (snd (and_then (call_value ext cb ys) done_undefined w)) = exported w" for ys
    by (intro and_then_frame; simp add: call_value_frame done_undefined_def)+
  with PutCallback show ?thesis by simp
qed (use assms in \<open>simp_all add: listener_frame\<close>)

lemma invoke_ready:
  "ipfsInstance (snd (invoke ext ReadyListener as w)) = Some IpfsNode"
  "exported (snd (invoke ext ReadyListener as w)) =
     (case exported w of Pending \<Rightarrow> Fulfilled Instance | s \<Rightarrow> s)"
  by (simp_all add: resolve_def split: settled.splits)

lemma load_exported:
  "exported (load ext e) =
     (case fst (ext (NodeOn ''ready'' ReadyListener) (env (created e))) of
        Throw x \<Rightarrow> Rejected x
      | Return u \<Rightarrow> Pending)"
  by (simp add: load_def perform_def created_def split: prod.splits completion.splits)

lemma load_fields:
  "ipfsInstance (load ext e) = None" "exported (load ext e) \<noteq> Fulfilled v"
  "trace (load ext e) = [NodeOn ''ready'' ReadyListener]"
  by (simp_all add: load_exported split: completion.splits)
     (simp_all add: load_def perform_def created_def split: prod.splits completion.splits)

lemma reachable_fulfilled:
  assumes "reachable ext w" and "exported w = Fulfilled v"
  shows "v = Instance \<and> ipfsInstance w = Some IpfsNode"
  using assms
proof (induction rule: reachable.induct)
  case (loaded e)
  then show ?case by (simp add: load_fields)
next
  case (invoked w c as)
  show ?case
  proof (cases "c = ReadyListener")
    case True
    with invoked show ?thesis
      by (cases "exported w") (simp_all add: invoke_ready del: invoke.simps)
  next
    case False
    with invoked invoke_frame [OF False, of ext as w] show ?thesis by simp
  qed
next
  case (called w op args)
  with call_frame [of ext op args w] show ?case by simp
next
  case (outside w e)
  then show ?case by simp
qed

section \<open>The object of the default configuration\<close>






section \<open>A method call and the callback arrow in full\<close>



section \<open>Claims\<close>

subsection \<open>C1: calls before the node is ready\<close>

text \<open>
  C1, as stated, fails: \<open>putObjectSync\<close> called without arguments on a module whose
  \<open>ipfsInstance\<close> is unset throws \<open>'You have to provide object'\<close>, not the not-connected
  error, because the argument count is tested before the readiness check.
\<close>

theorem C1_counterexample:
  "ipfsInstance fresh_world = None \<and>
   call sample_ext PutObjectSync [] fresh_world = (Throw NO_OBJECT, fresh_world) \<and>
   \<not> fails_with (fst (call sample_ext PutObjectSync [] fresh_world)) NOT_CONNECTED"
  by (simp add: putObjectSync_def NO_OBJECT_def NOT_CONNECTED_def fresh_world_simps)

text \<open>
  C1, amended: when \<open>ipfsInstance\<close> is unset, every method called with any argument list
  leaves the state and the trace as they were, so nothing is delegated to the wrapped
  node, and the call ends in exactly one of three ways: \<open>putObjectSync\<close> without
  arguments throws \<open>'You have to provide object'\<close>; the \<open>async\<close> \<open>putObject\<close> returns a
  promise rejected with the not-connected error; every other call throws the
  not-connected error.
\<close>

theorem C1_not_ready:
  assumes "ipfsInstance w = None"
  shows "call ext op args w =
     (if op = PutObjectSync \<and> args = [] then Throw NO_OBJECT
      else if op = PutObject then Return (Promise (Rejected NOT_CONNECTED))
      else Throw NOT_CONNECTED, w)"
  using assms by (rule call_unset)

text \<open>
  C1 at the freshly loaded module: \<open>putObject\<close>, \<open>onError\<close>, \<open>start\<close>, and \<open>putObjectSync\<close>
  with two arguments and with none.
\<close>

theorem C1_not_ready_witness:
  "ipfsInstance fresh_world = None \<and>
   call sample_ext PutObject [Data (JNum 1)] fresh_world =
     (Return (Promise (Rejected NOT_CONNECTED)), fresh_world) \<and>
   call sample_ext OnError [Fun 0] fresh_world = (Throw NOT_CONNECTED, fresh_world) \<and>
   call sample_ext Start [] fresh_world = (Throw NOT_CONNECTED, fresh_world) \<and>
   call sample_ext PutObjectSync [Data (JNum 1), Fun 0] fresh_world =
     (Throw NOT_CONNECTED, fresh_world) \<and>
   call sample_ext PutObjectSync [] fresh_world = (Throw NO_OBJECT, fresh_world)"
  using C1_not_ready [of fresh_world sample_ext PutObject "[Data (JNum 1)]"]
    C1_not_ready [of fresh_world sample_ext OnError "[Fun 0]"]
    C1_not_ready [of fresh_world sample_ext Start "[]"]
    C1_not_ready [of fresh_world sample_ext PutObjectSync "[Data (JNum 1), Fun 0]"]
    C1_not_ready [of fresh_world sample_ext PutObjectSync "[]"]
  by (simp add: fresh_world_simps)

subsection \<open>C2: putObject and isOnline forward\<close>

text \<open>
  C2, as stated, fails when the options passed are \<open>undefined\<close>: the default parameter
  replaces them, so \<open>putObject(1, undefined)\<close> calls \<open>dag.put(1, DEFAULT_DAG_CONFIG)\<close>.
  On a node whose \<open>dag.put\<close> fulfils with the options it was given, the wrapper's
  promise is fulfilled with the default configuration, while \<open>dag.put(1, undefined)\<close>
  gives a promise fulfilled with \<open>undefined\<close>.
\<close>

theorem C2_counterexample:
  "ipfsInstance ready_world = Some IpfsNode \<and>
   fst (putObject sample_ext [Data (JNum 1), Undefined] ready_world) =
     Return (Promise (Fulfilled DEFAULT_DAG_CONFIG)) \<and>
   fst (sample_ext (DagPut2 (Data (JNum 1)) Undefined) (env ready_world)) =
     Return (Promise (Fulfilled Undefined)) \<and>
   fst (putObject sample_ext [Data (JNum 1), Undefined] ready_world) \<noteq>
     fst (sample_ext (DagPut2 (Data (JNum 1)) Undefined) (env ready_world)) \<and>
   trace (snd (putObject sample_ext [Data (JNum 1), Undefined] ready_world)) =
     [NodeOn ''ready'' ReadyListener, DagPut2 (Data (JNum 1)) DEFAULT_DAG_CONFIG]"
  by (simp add: putObject_def Let_def arg_def fst_async snd_async snd_perform fst_perform
      and_then_set [of _ IpfsNode] ready_world_simps DEFAULT_not_Undefined)

text \<open>
  C2, amended: on a ready module, \<open>putObject(dagNode, options)\<close> with \<open>options\<close> other
  than \<open>undefined\<close> makes the single call \<open>dag.put(dagNode, options)\<close> with both
  arguments as given, and returns a promise that settles as the result of that call
  does; when \<open>dag.put\<close> returns a promise, the promise returned settles exactly the same
  way. \<open>isOnline()\<close> makes the single call \<open>isOnline()\<close> on the node and returns or
  throws exactly what that call does. With \<open>undefined\<close> for \<open>options\<close> the single call is
  \<open>dag.put(dagNode, DEFAULT_DAG_CONFIG)\<close>.
\<close>

theorem C2_forwarding:
  assumes "ipfsInstance w = Some h" and "options \<noteq> Undefined"
  shows "fst (putObject ext [dagNode, options] w) =
           Return (Promise (settle (fst (ext (DagPut2 dagNode options) (env w))))) \<and>
         (fst (ext (DagPut2 dagNode options) (env w)) = Return (Promise s) \<longrightarrow>
            fst (putObject ext [dagNode, options] w) = Return (Promise s)) \<and>
         snd (putObject ext [dagNode, options] w) =
           w\<lparr>env := snd (ext (DagPut2 dagNode options) (env w)),
             trace := trace w @ [DagPut2 dagNode options]\<rparr> \<and>
         fst (isOnline ext args w) = fst (ext NodeIsOnline (env w)) \<and>
         snd (isOnline ext args w) =
           w\<lparr>env := snd (ext NodeIsOnline (env w)), trace := trace w @ [NodeIsOnline]\<rparr> \<and>
         snd (putObject ext [dagNode, Undefined] w) =
           w\<lparr>env := snd (ext (DagPut2 dagNode DEFAULT_DAG_CONFIG) (env w)),
             trace := trace w @ [DagPut2 dagNode DEFAULT_DAG_CONFIG]\<rparr>"
proof -
  have d: "delegated_call PutObject [dagNode, options] = Some (DagPut2 dagNode options)"
    using assms(2) by (simp add: arg_def)
  have u: "delegated_call PutObject [dagNode, Undefined] =
      Some (DagPut2 dagNode DEFAULT_DAG_CONFIG)"
    by (simp add: arg_def)
  have p1: "fst (putObject ext [dagNode, options] w) =
      Return (Promise (settle (fst (ext (DagPut2 dagNode options) (env w)))))"
    using call_set_fst [OF assms(1) d, of ext] by simp
  have p2: "snd (putObject ext [dagNode, options] w) =
      w\<lparr>env := snd (ext (DagPut2 dagNode options) (env w)),
        trace := trace w @ [DagPut2 dagNode options]\<rparr>"
    using call_set_snd [OF assms(1) d, of ext] by (simp add: snd_perform)
  have p3: "snd (putObject ext [dagNode, Undefined] w) =
      w\<lparr>env := snd (ext (DagPut2 dagNode DEFAULT_DAG_CONFIG) (env w)),
        trace := trace w @ [DagPut2 dagNode DEFAULT_DAG_CONFIG]\<rparr>"
    using call_set_snd [OF assms(1) u, of ext] by (simp add: snd_perform)
  have o1: "fst (isOnline ext args w) = fst (ext NodeIsOnline (env w))"
    using call_set_fst [OF assms(1), of IsOnline args NodeIsOnline ext] by simp
  have o2: "snd (isOnline ext args w) =
      w\<lparr>env := snd (ext NodeIsOnline (env w)), trace := trace w @ [NodeIsOnline]\<rparr>"
    using call_set_snd [OF assms(1), of IsOnline args NodeIsOnline ext] by (simp add: snd_perform)
  from p1 p2 p3 o1 o2 show ?thesis by simp
qed

text \<open>C2 at the ready module, with options that are not \<open>undefined\<close>.\<close>

theorem C2_forwarding_witness:
  "ipfsInstance ready_world = Some IpfsNode \<and> Data (JStr ''opts'') \<noteq> Undefined \<and>
   fst (putObject sample_ext [Data (JNum 1), Data (JStr ''opts'')] ready_world) =
     Return (Promise (Fulfilled (Data (JStr ''opts'')))) \<and>
   trace (snd (putObject sample_ext [Data (JNum 1), Data (JStr ''opts'')] ready_world)) =
     [NodeOn ''ready'' ReadyListener, DagPut2 (Data (JNum 1)) (Data (JStr ''opts''))] \<and>
   fst (isOnline sample_ext [] ready_world) = Return (Data (JBool True))"
  using C2_forwarding [of ready_world IpfsNode "Data (JStr ''opts'')" sample_ext "Data (JNum 1)"
      "Fulfilled (Data (JStr ''opts''))" "[]"]
  by (simp add: ready_world_simps)

subsection \<open>C3: the default configuration\<close>




subsection \<open>C4: putObjectSync by argument count\<close>




subsection \<open>C5: the event listeners\<close>



subsection \<open>C6: what happens to failures of delegated calls\<close>

text \<open>
  C6, as stated, fails: when the node's \<open>start\<close> returns a promise rejected with an
  error, \<open>start()\<close> returns \<open>undefined\<close> and calls nothing else, so the failure reaches
  the caller neither as a result nor through a callback.
\<close>

theorem C6_counterexample:
  "ipfsInstance ready_world = Some IpfsNode \<and>
   fst (sample_ext NodeStart (env ready_world)) =
     Return (Promise (Rejected (Error ''repo is locked''))) \<and>
   call sample_ext Start [] ready_world =
     (Return Undefined,
      ready_world
        \<lparr>env := \<lparr>default_object = DAG_CONFIG_LITERAL, rest = 2\<rparr>,
         trace := [NodeOn ''ready'' ReadyListener, NodeStart]\<rparr>) \<and>
   \<not> fails_with (fst (call sample_ext Start [] ready_world)) (Error ''repo is locked'')"
  by (simp add: start_def and_then_set [of _ IpfsNode] ready_world_simps prod_eq_iff
      fst_perform_done snd_perform_done snd_perform counted_def)

text \<open>
  C6, amended: on a ready module each method makes its one delegated call. A value
  thrown by that call is thrown to the caller by every method but \<open>putObject\<close>, which
  returns a promise rejected with it; a rejected promise returned by \<open>dag.put\<close> makes
  \<open>putObject\<close> return a promise rejected with the same reason; \<open>isOnline\<close> hands back the
  node's result as it is; the arrow function of \<open>putObjectSync\<close> passes \<open>(err, cid)\<close> to
  the callback unchanged. The value the delegated call returns to the other methods
  (\<open>start\<close>, \<open>stop\<close>, \<open>putObjectSync\<close>, the four listener registrations), a rejected
  promise included, is dropped: they return \<open>undefined\<close>.
\<close>

theorem C6_propagation:
  assumes "ipfsInstance w = Some h" and "delegated_call op args = Some c"
  shows "trace (snd (call ext op args w)) = trace w @ [c] \<and>
         (op \<noteq> PutObject \<longrightarrow> fst (ext c (env w)) = Throw e \<longrightarrow>
            fst (call ext op args w) = Throw e) \<and>
         (op = PutObject \<longrightarrow> fst (ext c (env w)) = Throw e \<longrightarrow>
            fst (call ext op args w) = Return (Promise (Rejected e))) \<and>
         (op = PutObject \<longrightarrow> fst (ext c (env w)) = Return (Promise (Rejected e)) \<longrightarrow>
            fst (call ext op args w) = Return (Promise (Rejected e))) \<and>
         (op = IsOnline \<longrightarrow> fst (call ext op args w) = fst (ext c (env w))) \<and>
         (op \<noteq> PutObject \<longrightarrow> op \<noteq> IsOnline \<longrightarrow> fst (ext c (env w)) = Return v \<longrightarrow>
            fst (call ext op args w) = Return Undefined) \<and>
         trace (snd (invoke ext (PutCallback (Fun f)) [err, cid] u)) =
           trace u @ [CallFn f [err, cid]]"
  unfolding call_set_fst [OF assms, of ext] call_set_snd [OF assms, of ext]
  using invoke_PutCallback_trace [of ext f err cid u]
  by (simp add: snd_perform)

text \<open>
  C6 at a node that fails: \<open>stop\<close> throwing, \<open>dag.put\<close> throwing and rejecting under
  \<open>putObject\<close>, \<open>isOnline\<close>, the callback receiving an error; and \<open>start\<close> dropping a
  rejected promise.
\<close>

theorem C6_propagation_witness:
  "ipfsInstance failing_world = Some IpfsNode \<and>
   delegated_call Stop [] = Some NodeStop \<and>
   fst (failing_ext NodeStop (env failing_world)) = Throw (Error ''not started'') \<and>
   fst (call failing_ext Stop [] failing_world) = Throw (Error ''not started'') \<and>
   trace (snd (call failing_ext Stop [] failing_world)) =
     [NodeOn ''ready'' ReadyListener, NodeStop] \<and>
   delegated_call PutObject [Undefined, Data (JStr ''o'')] =
     Some (DagPut2 Undefined (Data (JStr ''o''))) \<and>
   fst (failing_ext (DagPut2 Undefined (Data (JStr ''o''))) (env failing_world)) =
     Throw (TypeError ''node is undefined'') \<and>
   fst (call failing_ext PutObject [Undefined, Data (JStr ''o'')] failing_world) =
     Return (Promise (Rejected (TypeError ''node is undefined''))) \<and>
   delegated_call PutObject [Data (JNum 1), Data (JStr ''o'')] =
     Some (DagPut2 (Data (JNum 1)) (Data (JStr ''o''))) \<and>
   fst (failing_ext (DagPut2 (Data (JNum 1)) (Data (JStr ''o''))) (env failing_world)) =
     Return (Promise (Rejected (Error ''block store failed''))) \<and>
   fst (call failing_ext PutObject [Data (JNum 1), Data (JStr ''o'')] failing_world) =
     Return (Promise (Rejected (Error ''block store failed''))) \<and>
   delegated_call IsOnline [] = Some NodeIsOnline \<and>
   fst (call failing_ext IsOnline [] failing_world) = Return (Data (JBool False)) \<and>
   ipfsInstance ready_world = Some IpfsNode \<and>
   delegated_call Start [] = Some NodeStart \<and>
   fst (sample_ext NodeStart (env ready_world)) =
     Return (Promise (Rejected (Error ''repo is locked''))) \<and>
   fst (call sample_ext Start [] ready_world) = Return Undefined \<and>
   trace (snd (invoke failing_ext (PutCallback (Fun 7))
     [Error ''block store failed'', Undefined] failing_world)) =
     [NodeOn ''ready'' ReadyListener, CallFn 7 [Error ''block store failed'', Undefined]]"
proof -
  have d1: "delegated_call Stop [] = Some NodeStop"
    by simp
  have d2: "delegated_call PutObject [Undefined, Data (JStr ''o'')] =
     Some (DagPut2 Undefined (Data (JStr ''o'')))"
    by (simp add: arg_def)
  have d3: "delegated_call PutObject [Data (JNum 1), Data (JStr ''o'')] =
     Some (DagPut2 (Data (JNum 1)) (Data (JStr ''o'')))"
    by (simp add: arg_def)
  have d4: "delegated_call IsOnline [] = Some NodeIsOnline"
    by simp
  have d5: "delegated_call Start [] = Some NodeStart"
    by simp
  show ?thesis
    using d1 d2 d3 d4 d5
      C6_propagation [OF failing_world_simps(1) d1, of failing_ext "Error ''not started''"
        Undefined 7 "Error ''block store failed''" Undefined failing_world]
      C6_propagation [OF failing_world_simps(1) d2, of failing_ext
        "TypeError ''node is undefined''" Undefined 7 Undefined Undefined failing_world]
      C6_propagation [OF failing_world_simps(1) d3, of failing_ext
        "Error ''block store failed''" Undefined 7 Undefined Undefined failing_world]
      C6_propagation [OF failing_world_simps(1) d4, of failing_ext Undefined Undefined 7
        Undefined Undefined failing_world]
      C6_propagation [OF ready_world_simps(1) d5, of sample_ext Undefined
        "Promise (Rejected (Error ''repo is locked''))" 7 Undefined Undefined ready_world]
    by (simp add: failing_world_simps ready_world_simps del: delegated_call.simps)
qed

subsection \<open>C8: the exported promise\<close>

text \<open>
  C8: loading makes exactly one call, the subscription of the \<open>'ready'\<close> listener to the
  node's \<open>'ready'\<close> event, and leaves the exported promise pending (rejected, if that
  call throws) and \<open>ipfsInstance\<close> unset. The \<open>'ready'\<close> listener sets \<open>ipfsInstance\<close> and
  fulfils a pending promise with the instance; once fulfilled the promise stays as it is
  under every later listener call and method call, and nothing but the \<open>'ready'\<close>
  listener changes it. In every reachable state in which the exported promise is
  fulfilled, it is fulfilled with the instance and the readiness check returns without
  throwing: a caller who got the instance from the promise never reaches the
  not-connected branch. The node is taken not to call the listener during the
  subscription itself.
\<close>

theorem C8_ready_before_resolve:
  "trace (load ext e) = [NodeOn ''ready'' ReadyListener] \<and>
   exported (load ext e) =
     (case fst (ext (NodeOn ''ready'' ReadyListener) (env (created e))) of
        Throw x \<Rightarrow> Rejected x
      | Return u \<Rightarrow> Pending) \<and>
   ipfsInstance (load ext e) = None \<and> exported (load ext e) \<noteq> Fulfilled v \<and>
   (exported w = Pending \<longrightarrow>
      exported (snd (invoke ext ReadyListener as w)) = Fulfilled Instance \<and>
      ipfsInstance (snd (invoke ext ReadyListener as w)) = Some IpfsNode) \<and>
   (exported w = Fulfilled v \<longrightarrow>
      exported (snd (invoke ext c as w)) = Fulfilled v) \<and>
   (c \<noteq> ReadyListener \<longrightarrow> exported (snd (invoke ext c as w)) = exported w) \<and>
   exported (snd (call ext op args w)) = exported w \<and>
   (reachable ext w \<longrightarrow> exported w = Fulfilled v \<longrightarrow>
      v = Instance \<and> validateIPFSConnected (ipfsInstance w) = Return Undefined)"
proof (intro conjI impI)
  show "exported (load ext e) =
     (case fst (ext (NodeOn ''ready'' ReadyListener) (env (created e))) of
        Throw x \<Rightarrow> Rejected x
      | Return u \<Rightarrow> Pending)"
    by (rule load_exported)
  show "exported (snd (invoke ext c as w)) = Fulfilled v" if "exported w = Fulfilled v"
    using that invoke_frame [of c ext as w] invoke_ready(2) [of ext as w]
    by (cases "c = ReadyListener") (simp_all del: invoke.simps)
  show "v = Instance" if "reachable ext w" and "exported w = Fulfilled v"
    using reachable_fulfilled [OF that] by simp
  show "validateIPFSConnected (ipfsInstance w) = Return Undefined"
    if "reachable ext w" and "exported w = Fulfilled v"
    using reachable_fulfilled [OF that] by (simp add: validateIPFSConnected_def)
qed (simp_all add: load_fields invoke_ready invoke_frame call_frame del: invoke.simps)

text \<open>C8 at the module just loaded and after the first \<open>'ready'\<close> event.\<close>

theorem C8_ready_before_resolve_witness:
  "trace (load sample_ext 0) = [NodeOn ''ready'' ReadyListener] \<and>
   exported (load sample_ext 0) = Pending \<and> ipfsInstance (load sample_ext 0) = None \<and>
   exported fresh_world = Pending \<and>
   exported (snd (invoke sample_ext ReadyListener [] fresh_world)) = Fulfilled Instance \<and>
   ipfsInstance (snd (invoke sample_ext ReadyListener [] fresh_world)) = Some IpfsNode \<and>
   reachable sample_ext ready_world \<and> exported ready_world = Fulfilled Instance \<and>
   validateIPFSConnected (ipfsInstance ready_world) = Return Undefined \<and>
   StopListener (Fun 1) \<noteq> ReadyListener \<and>
   exported (snd (invoke sample_ext (StopListener (Fun 1)) [] ready_world)) = Fulfilled Instance \<and>
   exported (snd (invoke sample_ext ReadyListener [] ready_world)) = Fulfilled Instance \<and>
   exported (snd (call sample_ext Start [] ready_world)) = Fulfilled Instance"
proof -
  have r: "reachable sample_ext ready_world"
    unfolding ready_world_def fresh_world_def by (intro reachable.intros)
  show ?thesis
    using r C8_ready_before_resolve [of sample_ext 0 Instance fresh_world "[]" ReadyListener
        Start "[]"]
      C8_ready_before_resolve [of sample_ext 0 Instance ready_world "[]" "StopListener (Fun 1)"
        Start "[]"]
      C8_ready_before_resolve [of sample_ext 0 Instance ready_world "[]" ReadyListener
        Start "[]"]
    by (simp add: fresh_world_simps ready_world_simps created_def del: invoke.simps)
qed

subsection \<open>C9: putObjectSync with no or one argument\<close>

text \<open>
  C9: \<open>putObjectSync\<close> without arguments throws \<open>'You have to provide object'\<close> in every
  state, ready or not, and changes nothing. With exactly one argument neither assignment
  block runs, so \<open>obj\<close> and \<open>callback\<close> stay \<open>undefined\<close> and \<open>config\<close> stays the default:
  an unready module then throws the not-connected error, a ready one calls \<open>dag.put\<close>
  with \<open>undefined\<close>, the default configuration and the arrow function around the
  \<open>undefined\<close> callback.
\<close>

theorem C9_arity:
  "putObjectSync ext [] w = (Throw NO_OBJECT, w) \<and>
   putObjectSync_locals [a] =
     \<lparr>obj = Undefined, config = DEFAULT_DAG_CONFIG, callback = Undefined\<rparr> \<and>
   (ipfsInstance w = None \<longrightarrow> putObjectSync ext [a] w = (Throw NOT_CONNECTED, w)) \<and>
   (ipfsInstance w = Some h \<longrightarrow>
      trace (snd (putObjectSync ext [a] w)) =
        trace w @ [DagPut3 Undefined DEFAULT_DAG_CONFIG (PutCallback Undefined)])"
proof (intro conjI impI)
  show "putObjectSync ext [] w = (Throw NO_OBJECT, w)"
    by (simp add: putObjectSync_def)
  show "putObjectSync_locals [a] =
     \<lparr>obj = Undefined, config = DEFAULT_DAG_CONFIG, callback = Undefined\<rparr>"
    by (simp add: locals_other)
  show "putObjectSync ext [a] w = (Throw NOT_CONNECTED, w)" if "ipfsInstance w = None"
    using call_unset [OF that, of ext PutObjectSync "[a]"] by simp
  show "trace (snd (putObjectSync ext [a] w)) =
        trace w @ [DagPut3 Undefined DEFAULT_DAG_CONFIG (PutCallback Undefined)]"
    if "ipfsInstance w = Some h"
    using call_set_snd [OF that, of PutObjectSync "[a]" _ ext] by (simp add: snd_perform)
qed

text \<open>C9 at the freshly loaded module and at the ready one.\<close>

theorem C9_arity_witness:
  "putObjectSync sample_ext [] fresh_world = (Throw NO_OBJECT, fresh_world) \<and>
   ipfsInstance fresh_world = None \<and>
   putObjectSync sample_ext [Data (JNum 1)] fresh_world = (Throw NOT_CONNECTED, fresh_world) \<and>
   ipfsInstance ready_world = Some IpfsNode \<and>
   trace (snd (putObjectSync sample_ext [Data (JNum 1)] ready_world)) =
     [NodeOn ''ready'' ReadyListener,
      DagPut3 Undefined DEFAULT_DAG_CONFIG (PutCallback Undefined)]"
  using C9_arity [of sample_ext fresh_world "Data (JNum 1)" IpfsNode]
    C9_arity [of sample_ext ready_world "Data (JNum 1)" IpfsNode]
  by (simp add: fresh_world_simps ready_world_simps)

subsection \<open>C10: start and stop return nothing\<close>



end
